theory Spec2Isabelle
  imports Main "HOL-Library.Word" "HOL-Library.AList"
begin

section \<open>Data model of the data family (tsdb/family.go)\<close>

text \<open>
  A leader is an \<open>int32\<close>, a sequence an \<open>int64\<close>. Sequences are only stored and
  compared, with Go's signed comparison (\<open><s\<close> on words).
\<close>

type_synonym leader = "32 word"
type_synonym seqno = "64 word"

text \<open>
  Go maps that the code ranges over are association lists: \<open>m[k]\<close> is \<open>map_of m k\<close>,
  \<open>m[k] = v\<close> is \<open>AList.update k v m\<close>. Go leaves the order of a \<open>range\<close> over a
  map open; the model ranges in the order of the list, which is one of these orders.
\<close>

type_synonym seqTable = "(leader \<times> seqno) list"

text \<open>
  An acknowledgement callback \<open>func(seq int64)\<close> is an opaque closure. It is modelled by the
  identifier under which it was registered; calling it appends the pair of the identifier and
  the argument to the log \<open>invoked\<close> of the family.
\<close>

type_synonym callback = nat

datatype error = ErrNoStorageCluster | Err string

text \<open>\<open>metric.StorageRow\<close>, the fields that \<open>WriteRows\<close> touches.\<close>

record storageRow =
  Writable :: bool
  SlotIndex :: "16 word"
  Timestamp :: "64 word"
  FieldIDs :: "16 word list"

text \<open>\<open>metrics.FamilyStatistics\<close>: counters; every amount added is a whole number.\<close>

record familyStatistics =
  ActiveFamilies :: int
  ActiveMemDBs :: int
  WriteBatches :: int
  WriteMetrics :: int
  WriteMetricFailures :: int
  WriteFields :: int
  MemDBTotalSize :: int
  MemDBFlushFailures :: int

text \<open>
  The struct \<open>dataFamily\<close>. The memory database is the interface \<open>memdb.MemoryDatabase\<close>,
  whose implementation is outside this file: its states are the type parameter \<open>'m\<close>, and a nil
  interface value is \<open>None\<close>. \<open>flushCondition\<close> is the counter of the wait group.
  \<open>flusherSeqs\<close> logs the calls \<open>flusher.Sequence(leader, seq)\<close> made on KV flushers, and
  \<open>registered\<close> says whether the global family manager holds the family.
  The mutex is not a field: every function below that the source runs under \<open>f.mutex\<close> is one
  atomic step of the model. Logging and the measuring of durations are left out.
\<close>

record 'm dataFamily =
  familyTime :: "64 word"
  interval :: "64 word"
  mutableMemDB :: "'m option"
  immutableMemDB :: "'m option"
  seq :: seqTable
  immutableSeq :: "seqTable option"
  persistSeq :: seqTable
  callbacks :: "(leader \<times> callback list) list"
  isFlushing :: bool
  flushCondition :: int
  statistics :: familyStatistics
  invoked :: "(callback \<times> seqno) list"
  flusherSeqs :: "(leader \<times> seqno) list"
  registered :: bool

section \<open>Sequences\<close>

text \<open>\<open>ValidateSequence\<close>, lines 430-438. It reads the family and changes nothing.\<close>

definition ValidateSequence :: "'m dataFamily \<Rightarrow> leader \<Rightarrow> seqno \<Rightarrow> bool" where
  "ValidateSequence f ldr s =
     (case map_of (seq f) ldr of
        None \<Rightarrow> True
      | Some seqForLeader \<Rightarrow> seqForLeader <s s)"

text \<open>
  \<open>CommitSequence\<close>, lines 441-448: the entry of the leader (the zero value when there is
  none) gets \<open>seq\<close> stored and is written back.
\<close>

definition CommitSequence :: "'m dataFamily \<Rightarrow> leader \<Rightarrow> seqno \<Rightarrow> 'm dataFamily" where
  "CommitSequence f ldr s = f\<lparr>seq := AList.update ldr s (seq f)\<rparr>"

text \<open>Calling the callbacks \<open>fns\<close> in order with the argument \<open>s\<close>.\<close>

definition invokeAll :: "callback list \<Rightarrow> seqno \<Rightarrow> (callback \<times> seqno) list" where
  "invokeAll fns s = map (\<lambda>fn. (fn, s)) fns"

text \<open>\<open>f.callbacks[leader]\<close>: the nil slice when the leader has no entry.\<close>

definition callbacksOf :: "'m dataFamily \<Rightarrow> leader \<Rightarrow> callback list" where
  "callbacksOf f ldr = (case map_of (callbacks f) ldr of None \<Rightarrow> [] | Some fns \<Rightarrow> fns)"

text \<open>\<open>AckSequence\<close>, lines 451-462.\<close>

definition AckSequence :: "'m dataFamily \<Rightarrow> leader \<Rightarrow> callback \<Rightarrow> 'm dataFamily" where
  "AckSequence f ldr fn =
     (let f1 = f\<lparr>callbacks := AList.update ldr (callbacksOf f ldr @ [fn]) (callbacks f)\<rparr>
      in case map_of (seq f1) ldr of
           Some seqForLeader \<Rightarrow> f1\<lparr>invoked := invoked f1 @ [(fn, seqForLeader)]\<rparr>
         | None \<Rightarrow> f1)"


section \<open>Collaborators\<close>

text \<open>
  What the family calls and this file does not define: the memory database behind its
  interface, the factory variables \<open>newMemoryDBFunc\<close> and \<open>newMetricDataFlusher\<close>, the interval
  calculator and the two thresholds of the global storage configuration. A method that may
  change the memory database returns its next state. \<open>MaxMemDBSize\<close> is the threshold as
  \<open>NeedFlush\<close> reads it, converted to \<open>int64\<close>; \<open>MutableMemDBTTL\<close> and \<open>Uptime\<close> are
  \<open>time.Duration\<close> values, which are \<open>int64\<close>.
\<close>

record 'm collaborators =
  newMemoryDBFunc :: "64 word \<Rightarrow> error + 'm"
  Size :: "'m \<Rightarrow> int"
  MemSize :: "'m \<Rightarrow> 64 word"
  Uptime :: "'m \<Rightarrow> 64 word"
  MarkReadOnly :: "'m \<Rightarrow> 'm"
  WriteRow :: "'m \<Rightarrow> storageRow \<Rightarrow> (error + int) \<times> 'm"
  FlushFamilyTo :: "'m \<Rightarrow> error option \<times> 'm"
  CloseDB :: "'m \<Rightarrow> error option \<times> 'm"
  newMetricDataFlusher :: "error option"
  CalcSlot :: "64 word \<Rightarrow> 64 word \<Rightarrow> 64 word \<Rightarrow> int"
  MutableMemDBTTL :: "64 word"
  MaxMemDBSize :: "64 word"

section \<open>Creation\<close>

text \<open>
  \<open>newDataFamily\<close>, lines 110-149. \<open>sequences\<close> is the map that the snapshot of the KV
  family returns; the loop copies each of its entries into \<open>seq\<close> and into \<open>persistSeq\<close>.
  \<open>st\<close> is the statistics object of the database and shard.
\<close>

definition newDataFamily ::
  "64 word \<Rightarrow> 64 word \<Rightarrow> seqTable \<Rightarrow> familyStatistics \<Rightarrow> 'm dataFamily" where
  "newDataFamily iv ft sequences st =
     \<lparr>familyTime = ft, interval = iv, mutableMemDB = None, immutableMemDB = None,
      seq = sequences, immutableSeq = None, persistSeq = sequences, callbacks = [],
      isFlushing = False, flushCondition = 0,
      statistics = st\<lparr>ActiveFamilies := ActiveFamilies st + 1\<rparr>,
      invoked = [], flusherSeqs = [], registered = True\<rparr>"

section \<open>Admission\<close>

text \<open>\<open>IsFlushing\<close>, lines 223-225.\<close>

definition IsFlushing :: "'m dataFamily \<Rightarrow> bool" where
  "IsFlushing f = isFlushing f"

text \<open>\<open>NeedFlush\<close>, lines 181-220.\<close>

definition NeedFlush :: "'m collaborators \<Rightarrow> 'm dataFamily \<Rightarrow> bool" where
  "NeedFlush env f =
     (if IsFlushing f then False
      else if immutableMemDB f \<noteq> None then False
      else case mutableMemDB f of
             None \<Rightarrow> False
           | Some db \<Rightarrow>
               if Size env db \<le> 0 then False
               else if MutableMemDBTTL env \<le>s Uptime env db then True
               else if MaxMemDBSize env \<le>s MemSize env db then True
               else False)"

text \<open>\<open>MemDBSize\<close>, lines 295-302.\<close>

definition MemDBSize :: "'m collaborators \<Rightarrow> 'm dataFamily \<Rightarrow> 64 word" where
  "MemDBSize env f = (case mutableMemDB f of Some db \<Rightarrow> MemSize env db | None \<Rightarrow> 0)"

section \<open>Writing\<close>

text \<open>\<open>GetOrCreateMemoryDatabase\<close>, lines 465-482.\<close>

definition GetOrCreateMemoryDatabase ::
  "'m collaborators \<Rightarrow> 'm dataFamily \<Rightarrow> 64 word \<Rightarrow> (error + 'm) \<times> 'm dataFamily" where
  "GetOrCreateMemoryDatabase env f ft =
     (case mutableMemDB f of
        Some db \<Rightarrow> (Inr db, f)
      | None \<Rightarrow>
          (case newMemoryDBFunc env ft of
             Inl err \<Rightarrow> (Inl err, f)
           | Inr newDB \<Rightarrow>
               (Inr newDB,
                f\<lparr>mutableMemDB := Some newDB,
                  statistics := (statistics f)\<lparr>ActiveMemDBs := ActiveMemDBs (statistics f) + 1\<rparr>\<rparr>)))"

text \<open>
  The loop of \<open>WriteRows\<close>, lines 403-423, over the rows still to come. It carries the memory
  database, the statistics and \<open>total\<close> (here \<open>tot\<close>).
\<close>

fun writeRowsLoop ::
  "'m collaborators \<Rightarrow> 64 word \<Rightarrow> 64 word \<Rightarrow> storageRow list \<Rightarrow>
   'm \<times> familyStatistics \<times> int \<Rightarrow> 'm \<times> familyStatistics \<times> int" where
  "writeRowsLoop env ft iv [] acc = acc"
| "writeRowsLoop env ft iv (row # rows) (db, st, tot) =
     (if \<not> Writable row then
        writeRowsLoop env ft iv rows
          (db, st\<lparr>WriteMetricFailures := WriteMetricFailures st + 1\<rparr>, tot)
      else
        (case WriteRow env db
                (row\<lparr>SlotIndex := word_of_int (CalcSlot env (Timestamp row) ft iv)\<rparr>) of
           (Inr sz, db') \<Rightarrow>
             writeRowsLoop env ft iv rows
               (db',
                st\<lparr>WriteMetrics := WriteMetrics st + 1,
                   WriteFields := WriteFields st + int (length (FieldIDs row))\<rparr>,
                tot + sz)
         | (Inl err, db') \<Rightarrow>
             writeRowsLoop env ft iv rows
               (db', st\<lparr>WriteMetricFailures := WriteMetricFailures st + 1\<rparr>, tot)))"

text \<open>
  \<open>WriteRows\<close>, lines 383-427. The writer section of the memory database
  (\<open>AcquireWrite\<close>, \<open>WithLock\<close>, \<open>CompleteWrite\<close>) only synchronises and is not modelled.
  The deferred function counts the batch; the memory database written to is the mutable one.
\<close>

definition WriteRows ::
  "'m collaborators \<Rightarrow> 'm dataFamily \<Rightarrow> storageRow list \<Rightarrow> error option \<times> 'm dataFamily" where
  "WriteRows env f rows =
     (if length rows = 0 then (None, f)
      else
        (case GetOrCreateMemoryDatabase env f (familyTime f) of
           (Inl err, f1) \<Rightarrow>
             (Some err,
              f1\<lparr>statistics := (statistics f1)
                   \<lparr>WriteMetricFailures :=
                      WriteMetricFailures (statistics f1) + int (length rows)\<rparr>\<rparr>)
         | (Inr db, f1) \<Rightarrow>
             (case writeRowsLoop env (familyTime f1) (interval f1) rows (db, statistics f1, 0) of
                (db', st, tot) \<Rightarrow>
                  (None,
                   f1\<lparr>mutableMemDB := Some db',
                      statistics := st\<lparr>MemDBTotalSize := MemDBTotalSize st + tot,
                                        WriteBatches := WriteBatches st + 1\<rparr>\<rparr>))))"

section \<open>Flushing\<close>

text \<open>
  The callbacks that \<open>flushMemoryDatabase\<close> calls, lines 538-545: for every pair of
  \<open>sequences\<close>, the callbacks registered for the leader, with the sequence of the pair.
\<close>

definition ackSequences ::
  "(leader \<times> callback list) list \<Rightarrow> seqTable \<Rightarrow> (callback \<times> seqno) list" where
  "ackSequences cbs sequences =
     concat (map (\<lambda>(ldr, s). case map_of cbs ldr of
                                 Some fns \<Rightarrow> invokeAll fns s
                               | None \<Rightarrow> []) sequences)"

text \<open>
  \<open>flushMemoryDatabase\<close>, lines 512-558. It returns the error, the family and the next state
  of the memory database it was given. An error of \<open>memDB.Close\<close> is ignored.
\<close>

definition flushMemoryDatabase ::
  "'m collaborators \<Rightarrow> 'm dataFamily \<Rightarrow> seqTable \<Rightarrow> 'm \<Rightarrow>
   error option \<times> 'm dataFamily \<times> 'm" where
  "flushMemoryDatabase env f sequences memDB =
     (let f1 = f\<lparr>flusherSeqs := flusherSeqs f @ sequences\<rparr>
      in case newMetricDataFlusher env of
           Some err \<Rightarrow> (Some err, f1, memDB)
         | None \<Rightarrow>
             (case FlushFamilyTo env memDB of
                (Some err, db1) \<Rightarrow>
                  (Some err,
                   f1\<lparr>statistics := (statistics f1)
                        \<lparr>MemDBFlushFailures := MemDBFlushFailures (statistics f1) + 1\<rparr>\<rparr>,
                   db1)
              | (None, db1) \<Rightarrow>
                  (let f2 = f1\<lparr>invoked := invoked f1 @ ackSequences (callbacks f1) sequences\<rparr>;
                       f3 = f2\<lparr>statistics := (statistics f2)
                                 \<lparr>ActiveMemDBs := ActiveMemDBs (statistics f2) - 1,
                                  MemDBTotalSize :=
                                    MemDBTotalSize (statistics f2) - sint (MemSize env db1)\<rparr>\<rparr>
                   in (None, f3, snd (CloseDB env db1)))))"

text \<open>
  \<open>Flush\<close>, lines 228-292, in the four pieces between which other goroutines can run.
  \<open>flushEnter\<close> is the compare-and-swap on \<open>isFlushing\<close> with the \<open>Add(1)\<close> on the wait
  group (lines 229-237); it gives nothing when another flush is running.
\<close>

definition flushEnter :: "'m dataFamily \<Rightarrow> 'm dataFamily option" where
  "flushEnter f =
     (if isFlushing f then None
      else Some (f\<lparr>isFlushing := True, flushCondition := flushCondition f + 1\<rparr>))"

text \<open>
  The switch of the memory databases under the mutex, lines 242-258. It gives the locals
  \<open>immutableSeq\<close> and \<open>waitingFlushMemDB\<close>, or nothing when there is nothing to flush.
  The loop of lines 254-256 copies \<open>f.seq\<close> entry by entry.
\<close>

definition flushSwap ::
  "'m collaborators \<Rightarrow> 'm dataFamily \<Rightarrow> 'm dataFamily \<times> (seqTable \<times> 'm) option" where
  "flushSwap env f =
     (if immutableMemDB f \<noteq> None then (f, None)
      else
        (case mutableMemDB f of
           None \<Rightarrow> (f, None)
         | Some db \<Rightarrow>
             if Size env db = 0 then (f, None)
             else
               (let waitingFlushMemDB = MarkReadOnly env db
                in (f\<lparr>immutableMemDB := Some waitingFlushMemDB, mutableMemDB := None,
                      immutableSeq := Some (seq f)\<rparr>,
                    Some (seq f, waitingFlushMemDB)))))"

text \<open>
  The write outside the mutex, line 260. \<open>waitingFlushMemDB\<close> and \<open>f.immutableMemDB\<close> are the
  same object, so the next state of the one is the next state of the other.
\<close>

definition flushWrite ::
  "'m collaborators \<Rightarrow> 'm dataFamily \<Rightarrow> seqTable \<Rightarrow> 'm \<Rightarrow> error option \<times> 'm dataFamily" where
  "flushWrite env f immSeq waitingFlushMemDB =
     (case flushMemoryDatabase env f immSeq waitingFlushMemDB of
        (err, f1, db1) \<Rightarrow> (err, f1\<lparr>immutableMemDB := Some db1\<rparr>))"

text \<open>The callbacks that \<open>Flush\<close> itself calls, lines 271-279.\<close>

definition ackCallbacks ::
  "(leader \<times> callback list) list \<Rightarrow> seqTable \<Rightarrow> (callback \<times> seqno) list" where
  "ackCallbacks cbs sq =
     concat (map (\<lambda>(ldr, fns). case map_of sq ldr of
                                   Some s \<Rightarrow> invokeAll fns s
                                 | None \<Rightarrow> []) cbs)"

text \<open>The second critical section of \<open>Flush\<close>, lines 265-280, after a write without error.\<close>

definition flushCommit :: "'m dataFamily \<Rightarrow> seqTable \<Rightarrow> 'm dataFamily" where
  "flushCommit f immSeq =
     (let f1 = f\<lparr>immutableMemDB := None, immutableSeq := None\<rparr>;
          f2 = f1\<lparr>seq := fold (\<lambda>(ldr, s). AList.update ldr s) immSeq (seq f1)\<rparr>
      in f2\<lparr>invoked := invoked f2 @ ackCallbacks (callbacks f2) (seq f2)\<rparr>)"

text \<open>The deferred function of \<open>Flush\<close>, lines 230-234.\<close>

definition flushDone :: "'m dataFamily \<Rightarrow> 'm dataFamily" where
  "flushDone f = f\<lparr>flushCondition := flushCondition f - 1, isFlushing := False\<rparr>"

text \<open>\<open>Flush\<close> with no other goroutine in between.\<close>

definition Flush :: "'m collaborators \<Rightarrow> 'm dataFamily \<Rightarrow> error option \<times> 'm dataFamily" where
  "Flush env f =
     (case flushEnter f of
        None \<Rightarrow> (None, f)
      | Some f0 \<Rightarrow>
          (case flushSwap env f0 of
             (f1, None) \<Rightarrow> (None, flushDone f1)
           | (f1, Some (immSeq, waitingFlushMemDB)) \<Rightarrow>
               (case flushWrite env f1 immSeq waitingFlushMemDB of
                  (Some err, f2) \<Rightarrow> (Some err, flushDone f2)
                | (None, f2) \<Rightarrow> (None, flushDone (flushCommit f2 immSeq)))))"

text \<open>
  \<open>Close\<close>, lines 485-509. \<open>flushCondition.Wait()\<close> returns once the counter is zero; with a
  flush entered and not done, \<open>Close\<close> does not return, which is \<open>None\<close>.
\<close>

definition Close ::
  "'m collaborators \<Rightarrow> 'm dataFamily \<Rightarrow> (error option \<times> 'm dataFamily) option" where
  "Close env f =
     (if flushCondition f \<noteq> 0 then None
      else
        (let r1 = (case immutableMemDB f of
                     None \<Rightarrow> (None, f)
                   | Some imm \<Rightarrow>
                       (case flushMemoryDatabase env f
                               (case immutableSeq f of None \<Rightarrow> [] | Some sq \<Rightarrow> sq) imm of
                          (err, f1, db1) \<Rightarrow> (err, f1\<lparr>immutableMemDB := Some db1\<rparr>)))
         in case r1 of
              (Some err, f1) \<Rightarrow> Some (Some err, f1)
            | (None, f1) \<Rightarrow>
                (let r2 = (case mutableMemDB f1 of
                             None \<Rightarrow> (None, f1)
                           | Some mdb \<Rightarrow>
                               (case flushMemoryDatabase env f1 (seq f1) mdb of
                                  (err, f2, db2) \<Rightarrow> (err, f2\<lparr>mutableMemDB := Some db2\<rparr>)))
                 in case r2 of
                      (Some err, f2) \<Rightarrow> Some (Some err, f2)
                    | (None, f2) \<Rightarrow>
                        Some (None,
                              f2\<lparr>registered := False,
                                 statistics := (statistics f2)
                                   \<lparr>ActiveFamilies := ActiveFamilies (statistics f2) - 1\<rparr>\<rparr>))))"

section \<open>The master (coordinator/master.go)\<close>

text \<open>
  A storage cluster answers \<open>FlushDatabase(databaseName)\<close> with an error or nil; the state
  manager finds a storage cluster by name, or gives nil. The field \<open>stateMgr\<close> of the master is
  nil until a fail-over has set it. \<open>elect_IsMaster\<close> is the answer of the election.
\<close>

record storageCluster =
  scFlushDatabase :: "string \<Rightarrow> error option"

record stateManager =
  GetStorageCluster :: "string \<Rightarrow> storageCluster option"

record master =
  elect_IsMaster :: bool
  stateMgr :: "stateManager option"

definition IsMaster :: "master \<Rightarrow> bool" where
  "IsMaster m = elect_IsMaster m"

text \<open>
  What a call of \<open>FlushDatabase\<close> does: it panics on a nil state manager, or it returns an
  error or nil, having made the listed calls \<open>storage.FlushDatabase(databaseName)\<close>, each
  written as the pair of the name the cluster was found under and the database name.
\<close>

datatype flushDatabaseResult = Panic | Returns "error option" "(string \<times> string) list"

text \<open>\<open>FlushDatabase\<close>, lines 170-182.\<close>

definition FlushDatabase :: "master \<Rightarrow> string \<Rightarrow> string \<Rightarrow> flushDatabaseResult" where
  "FlushDatabase m cluster databaseName =
     (if IsMaster m then
        (case stateMgr m of
           None \<Rightarrow> Panic
         | Some mgr \<Rightarrow>
             (case GetStorageCluster mgr cluster of
                None \<Rightarrow> Returns (Some ErrNoStorageCluster) []
              | Some storage \<Rightarrow>
                  Returns (scFlushDatabase storage databaseName)
                          [(cluster, databaseName)]))
      else Returns None [])"

section \<open>Concrete collaborators and scenarios\<close>

text \<open>
  A memory database that is the list of the rows written to it, with collaborators that never
  fail (\<open>memEnv\<close>), whose disk write fails (\<open>failEnv\<close>), whose factory fails
  (\<open>noCreateEnv\<close>), and whose memory database is full after one row (\<open>fullEnv\<close>). They
  are the inputs at which the theorems below are evaluated.
\<close>

definition zeroStatistics :: familyStatistics where
  "zeroStatistics =
     \<lparr>ActiveFamilies = 0, ActiveMemDBs = 0, WriteBatches = 0, WriteMetrics = 0,
      WriteMetricFailures = 0, WriteFields = 0, MemDBTotalSize = 0, MemDBFlushFailures = 0\<rparr>"

definition memEnv :: "storageRow list collaborators" where
  "memEnv =
     \<lparr>newMemoryDBFunc = (\<lambda>ft. Inr []), Size = (\<lambda>db. int (length db)),
      MemSize = (\<lambda>db. of_nat (length db)), Uptime = (\<lambda>db. 0), MarkReadOnly = (\<lambda>db. db),
      WriteRow = (\<lambda>db row. (Inr 1, db @ [row])), FlushFamilyTo = (\<lambda>db. (None, db)),
      CloseDB = (\<lambda>db. (None, db)), newMetricDataFlusher = None,
      CalcSlot = (\<lambda>ts ft iv. (sint ts - sint ft) div sint iv),
      MutableMemDBTTL = 1000, MaxMemDBSize = 2\<rparr>"

definition failEnv :: "storageRow list collaborators" where
  "failEnv = memEnv\<lparr>FlushFamilyTo := (\<lambda>db. (Some (Err ''FlushWrite''), db))\<rparr>"

definition noCreateEnv :: "storageRow list collaborators" where
  "noCreateEnv = memEnv\<lparr>newMemoryDBFunc := (\<lambda>ft. Inl (Err ''MemDBCreate''))\<rparr>"

definition fullEnv :: "storageRow list collaborators" where
  "fullEnv = memEnv\<lparr>WriteRow := (\<lambda>db row. if length db < 1 then (Inr 1, db @ [row])
                                         else (Inl (Err ''full''), db))\<rparr>"

definition rowAt :: "64 word \<Rightarrow> storageRow" where
  "rowAt ts = \<lparr>Writable = True, SlotIndex = 0, Timestamp = ts, FieldIDs = [1]\<rparr>"

definition badRow :: storageRow where
  "badRow = \<lparr>Writable = False, SlotIndex = 0, Timestamp = 5000, FieldIDs = [1, 2]\<rparr>"

definition rows3 :: "storageRow list" where
  "rows3 = [rowAt 1000, rowAt 5000, rowAt 9000]"

text \<open>A family at family time 0 with an interval of ten seconds and no persisted sequence.\<close>

definition fam0 :: "storageRow list dataFamily" where
  "fam0 = newDataFamily 10000 0 [] zeroStatistics"

text \<open>Three rows written, then sequence 10 of leader 1 committed.\<close>

definition scenario1 :: "storageRow list dataFamily" where
  "scenario1 = CommitSequence (snd (WriteRows memEnv fam0 rows3)) 1 10"

text \<open>
  A flush of \<open>scenario1\<close> with a writer in between: the flush has entered (\<open>raceEntered\<close>) and
  switched the memory databases (\<open>raceSwapped\<close>); while it writes outside the mutex, the writer
  commits sequence 11 of leader 1 (\<open>raceCommitted\<close>); the flush then writes, runs its second
  critical section and its deferred function (\<open>raceFinished\<close>).
\<close>

definition raceEntered :: "storageRow list dataFamily" where
  "raceEntered = scenario1\<lparr>isFlushing := True, flushCondition := 1\<rparr>"

definition raceSwapped :: "storageRow list dataFamily" where
  "raceSwapped =
     raceEntered\<lparr>immutableMemDB := Some rows3, mutableMemDB := None,
                 immutableSeq := Some [(1, 10)]\<rparr>"

definition raceCommitted :: "storageRow list dataFamily" where
  "raceCommitted = CommitSequence raceSwapped 1 11"

definition raceFinished :: "storageRow list dataFamily" where
  "raceFinished =
     flushDone (flushCommit (snd (flushWrite memEnv raceCommitted [(1, 10)] rows3)) [(1, 10)])"

text \<open>Callback 7 registered for leader 1 on the new family, a row written, sequence 5 committed.\<close>

definition ackScenario :: "storageRow list dataFamily" where
  "ackScenario =
     CommitSequence (snd (WriteRows memEnv (AckSequence fam0 1 7) [rowAt 1000])) 1 5"

definition okCluster :: storageCluster where
  "okCluster =
     \<lparr>scFlushDatabase = (\<lambda>db. if db = ''db1'' then None else Some (Err ''no database''))\<rparr>"

definition oneClusterMgr :: stateManager where
  "oneClusterMgr = \<lparr>GetStorageCluster = (\<lambda>c. if c = ''c1'' then Some okCluster else None)\<rparr>"

section \<open>The sequence table\<close>

text \<open>
  Claim C8. \<open>ValidateSequence(l, s)\<close> is true exactly when \<open>s\<close> is greater than \<open>seq[l]\<close> if
  the leader has an entry, and true for every \<open>s\<close> if it has none. It returns a truth value
  only, and that value depends on nothing but the sequence table: two families with the same
  table give the same answer, so a repeated call with no change in between does too.
\<close>

theorem ValidateSequence_spec:
  "(\<forall>cur. map_of (seq f) ldr = Some cur \<longrightarrow> ValidateSequence f ldr s = (sint cur < sint s)) \<and>
   (map_of (seq f) ldr = None \<longrightarrow> ValidateSequence f ldr s) \<and>
   (seq g = seq f \<longrightarrow> ValidateSequence g ldr s = ValidateSequence f ldr s)"
  by (simp add: ValidateSequence_def word_sless_alt)

theorem ValidateSequence_spec_witness:
  "\<not> ValidateSequence scenario1 1 10 \<and>
   ValidateSequence scenario1 1 11 \<and>
   ValidateSequence fam0 1 (- 5) \<and>
   ValidateSequence (scenario1\<lparr>isFlushing := True\<rparr>) 1 11"
  using ValidateSequence_spec [where f = scenario1 and ldr = 1 and s = 10 and g = scenario1]
    ValidateSequence_spec [where f = scenario1 and ldr = 1 and s = 11
      and g = "scenario1\<lparr>isFlushing := True\<rparr>"]
    ValidateSequence_spec [where f = fam0 and ldr = 1 and s = "- 5" and g = fam0]
  by (simp add: scenario1_def CommitSequence_def
      WriteRows_def GetOrCreateMemoryDatabase_def
      fam0_def newDataFamily_def memEnv_def rowAt_def rows3_def zeroStatistics_def)

text \<open>
  Claim C10. \<open>CommitSequence(l, s)\<close> stores \<open>s\<close> into \<open>seq[l]\<close> whatever the entry was, also
  when there was none and when \<open>s\<close> is smaller, and leaves every other leader alone. After it,
  \<open>ValidateSequence\<close> for the leader compares against \<open>s\<close>, and \<open>AckSequence\<close> for the leader
  calls the callback at registration, with \<open>s\<close>.
\<close>

theorem CommitSequence_unconditional:
  "map_of (seq (CommitSequence f ldr s)) ldr = Some s \<and>
   (\<forall>l'. l' \<noteq> ldr \<longrightarrow> map_of (seq (CommitSequence f ldr s)) l' = map_of (seq f) l') \<and>
   ValidateSequence (CommitSequence f ldr s) ldr s' = (sint s < sint s') \<and>
   invoked (AckSequence (CommitSequence f ldr s) ldr fn) = invoked f @ [(fn, s)] \<and>
   persistSeq (CommitSequence f ldr s) = persistSeq f \<and>
   callbacks (CommitSequence f ldr s) = callbacks f \<and>
   invoked (CommitSequence f ldr s) = invoked f"
  by (simp add: CommitSequence_def ValidateSequence_def AckSequence_def Let_def update_conv'
      word_sless_alt)

theorem CommitSequence_unconditional_witness:
  "map_of (seq scenario1) 1 = Some 10 \<and>
   map_of (seq (CommitSequence scenario1 1 5)) 1 = Some 5 \<and>
   map_of (seq (CommitSequence scenario1 2 7)) 1 = Some 10 \<and>
   map_of (seq fam0) 3 = None \<and>
   map_of (seq (CommitSequence fam0 3 (- 4))) 3 = Some (- 4)"
  using CommitSequence_unconditional [where f = scenario1 and ldr = 1 and s = 5]
    CommitSequence_unconditional [where f = scenario1 and ldr = 2 and s = 7]
    CommitSequence_unconditional [where f = fam0 and ldr = 3 and s = "- 4"]
  by (simp add: scenario1_def CommitSequence_def
      WriteRows_def GetOrCreateMemoryDatabase_def
      fam0_def newDataFamily_def memEnv_def rowAt_def rows3_def zeroStatistics_def)

text \<open>
  Claim C6. \<open>AckSequence(leader, fn)\<close> appends \<open>fn\<close> to the callbacks of the leader and
  touches no other leader's callbacks. If the leader has an entry in \<open>seq\<close>, \<open>fn\<close> is called
  once, with that entry; if it has none, \<open>fn\<close> is not called.
\<close>

theorem AckSequence_spec:
  "callbacksOf (AckSequence f ldr fn) ldr = callbacksOf f ldr @ [fn] \<and>
   (\<forall>l'. l' \<noteq> ldr \<longrightarrow> callbacksOf (AckSequence f ldr fn) l' = callbacksOf f l') \<and>
   (\<forall>s. map_of (seq f) ldr = Some s \<longrightarrow>
        invoked (AckSequence f ldr fn) = invoked f @ [(fn, s)]) \<and>
   (map_of (seq f) ldr = None \<longrightarrow> invoked (AckSequence f ldr fn) = invoked f) \<and>
   seq (AckSequence f ldr fn) = seq f \<and>
   persistSeq (AckSequence f ldr fn) = persistSeq f"
  by (simp add: AckSequence_def callbacksOf_def Let_def update_conv' split: option.splits)

theorem AckSequence_spec_witness:
  "callbacksOf (AckSequence fam0 1 7) 1 = [7] \<and>
   invoked (AckSequence fam0 1 7) = [] \<and>
   invoked (AckSequence (CommitSequence fam0 1 5) 1 7) = [(7, 5)] \<and>
   callbacksOf (AckSequence (AckSequence fam0 1 7) 2 8) 1 = [7]"
  using AckSequence_spec [where f = fam0 and ldr = 1 and fn = 7]
    AckSequence_spec [where f = "CommitSequence fam0 1 5" and ldr = 1 and fn = 7]
    AckSequence_spec [where f = "AckSequence fam0 1 7" and ldr = 2 and fn = 8]
  by (simp add: fam0_def newDataFamily_def zeroStatistics_def CommitSequence_def callbacksOf_def)

section \<open>Admission and writing\<close>

text \<open>
  Claim C5. \<open>NeedFlush()\<close> is true exactly when no flush is running, there is no immutable
  memory database, the mutable one exists with \<open>Size() > 0\<close>, and its uptime has reached
  \<open>MutableMemDBTTL\<close> or its memory size has reached \<open>MaxMemDBSize\<close>. In particular it is false
  whenever \<open>isFlushing\<close> is true.
\<close>

theorem NeedFlush_iff:
  "(NeedFlush env f \<longleftrightarrow>
      \<not> isFlushing f \<and> immutableMemDB f = None \<and>
      (\<exists>db. mutableMemDB f = Some db \<and> 0 < Size env db \<and>
         (sint (MutableMemDBTTL env) \<le> sint (Uptime env db) \<or>
          sint (MaxMemDBSize env) \<le> sint (MemSize env db)))) \<and>
   (isFlushing f \<longrightarrow> \<not> NeedFlush env f)"
  by (auto simp add: NeedFlush_def IsFlushing_def word_sle_eq split: option.splits)

theorem NeedFlush_iff_witness:
  "NeedFlush memEnv scenario1 \<and>
   \<not> NeedFlush memEnv (scenario1\<lparr>isFlushing := True\<rparr>) \<and>
   \<not> NeedFlush memEnv (snd (WriteRows memEnv fam0 [rowAt 1000])) \<and>
   \<not> NeedFlush memEnv fam0"
  using NeedFlush_iff [where env = memEnv and f = scenario1]
    NeedFlush_iff [where env = memEnv and f = "scenario1\<lparr>isFlushing := True\<rparr>"]
    NeedFlush_iff [where env = memEnv and f = "snd (WriteRows memEnv fam0 [rowAt 1000])"]
    NeedFlush_iff [where env = memEnv and f = fam0]
  by (simp add: scenario1_def CommitSequence_def
      WriteRows_def GetOrCreateMemoryDatabase_def
      fam0_def newDataFamily_def memEnv_def rowAt_def rows3_def zeroStatistics_def)


lemma writeRowsLoop_counts:
  "writeRowsLoop env ft iv rows (db, st, tot) = (db', st', tot') \<Longrightarrow>
   WriteMetrics st' + WriteMetricFailures st' =
     WriteMetrics st + WriteMetricFailures st + int (length rows) \<and>
   WriteMetricFailures st + int (length (filter (\<lambda>r. \<not> Writable r) rows))
     \<le> WriteMetricFailures st'"
proof (induction rows arbitrary: db st tot)
  case Nil
  then show ?case by simp
next
  case (Cons row rows)
  show ?case
  proof (cases "Writable row")
    case False
    with Cons.prems Cons.IH [of db "st\<lparr>WriteMetricFailures := WriteMetricFailures st + 1\<rparr>" tot]
    show ?thesis by simp
  next
    case True
    obtain r d where w: "WriteRow env db
        (row\<lparr>SlotIndex := word_of_int (CalcSlot env (Timestamp row) ft iv)\<rparr>) = (r, d)"
      by (cases "WriteRow env db
        (row\<lparr>SlotIndex := word_of_int (CalcSlot env (Timestamp row) ft iv)\<rparr>)")
    show ?thesis
    proof (cases r)
      case (Inl e)
      with True w Cons.prems
        Cons.IH [of d "st\<lparr>WriteMetricFailures := WriteMetricFailures st + 1\<rparr>" tot]
      show ?thesis by simp
    next
      case (Inr sz)
      with True w Cons.prems
        Cons.IH [of d "st\<lparr>WriteMetrics := WriteMetrics st + 1,
                         WriteFields := WriteFields st + int (length (FieldIDs row))\<rparr>" "tot + sz"]
      show ?thesis by simp
    qed
  qed
qed

lemma writeRowsLoop_db:
  "fst (writeRowsLoop env ft iv rows (db, st, tot)) =
     fold (\<lambda>row d. snd (WriteRow env d
             (row\<lparr>SlotIndex := word_of_int (CalcSlot env (Timestamp row) ft iv)\<rparr>)))
          (filter Writable rows) db"
  by (induction rows arbitrary: db st tot) (auto split: prod.splits sum.splits)

text \<open>
  Claim C7. \<open>WriteRows\<close> on an empty batch returns nil and leaves the family as it was. If the
  memory database has to be created and the creation fails, \<open>WriteRows\<close> returns that error,
  counts every row of the batch as failed and changes nothing else, so no row is written. If a
  memory database is there or is created, \<open>WriteRows\<close> returns nil whatever the rows do: every
  row is counted once, as written or as failed; every row that is not writable is counted as
  failed; every writable row is handed to \<open>WriteRow\<close>, in order, whether or not an earlier one
  failed. In the loop, a row that is not writable and a row whose \<open>WriteRow\<close> fails each add one
  to the failures, and the loop goes on with the rows that remain.
\<close>

theorem WriteRows_spec:
  "WriteRows env f [] = (None, f) \<and>
   (rows \<noteq> [] \<and> mutableMemDB f = None \<and> newMemoryDBFunc env (familyTime f) = Inl err \<longrightarrow>
      WriteRows env f rows =
        (Some err,
         f\<lparr>statistics := (statistics f)
             \<lparr>WriteMetricFailures :=
                WriteMetricFailures (statistics f) + int (length rows)\<rparr>\<rparr>)) \<and>
   (rows \<noteq> [] \<and> fst (GetOrCreateMemoryDatabase env f (familyTime f)) = Inr db \<longrightarrow>
      fst (WriteRows env f rows) = None \<and>
      mutableMemDB (snd (WriteRows env f rows)) =
        Some (fold (\<lambda>row d. snd (WriteRow env d
                      (row\<lparr>SlotIndex :=
                             word_of_int
                               (CalcSlot env (Timestamp row) (familyTime f) (interval f))\<rparr>)))
                   (filter Writable rows) db) \<and>
      WriteMetrics (statistics (snd (WriteRows env f rows))) +
        WriteMetricFailures (statistics (snd (WriteRows env f rows))) =
        WriteMetrics (statistics f) + WriteMetricFailures (statistics f) + int (length rows) \<and>
      WriteMetricFailures (statistics f) + int (length (filter (\<lambda>r. \<not> Writable r) rows))
        \<le> WriteMetricFailures (statistics (snd (WriteRows env f rows)))) \<and>
   (\<not> Writable row \<longrightarrow>
      writeRowsLoop env ft iv (row # rest) (d, st, tot) =
        writeRowsLoop env ft iv rest
          (d, st\<lparr>WriteMetricFailures := WriteMetricFailures st + 1\<rparr>, tot)) \<and>
   (Writable row \<and>
    WriteRow env d (row\<lparr>SlotIndex := word_of_int (CalcSlot env (Timestamp row) ft iv)\<rparr>) =
      (Inl e, d') \<longrightarrow>
      writeRowsLoop env ft iv (row # rest) (d, st, tot) =
        writeRowsLoop env ft iv rest
          (d', st\<lparr>WriteMetricFailures := WriteMetricFailures st + 1\<rparr>, tot))"
proof -
  have empty: "WriteRows env f [] = (None, f)"
    by (simp add: WriteRows_def)
  have create: "WriteRows env f rows =
        (Some err,
         f\<lparr>statistics := (statistics f)
             \<lparr>WriteMetricFailures :=
                WriteMetricFailures (statistics f) + int (length rows)\<rparr>\<rparr>)"
    if "rows \<noteq> []" "mutableMemDB f = None" "newMemoryDBFunc env (familyTime f) = Inl err"
    using that by (simp add: WriteRows_def GetOrCreateMemoryDatabase_def)
  have batch: "fst (WriteRows env f rows) = None \<and>
      mutableMemDB (snd (WriteRows env f rows)) =
        Some (fold (\<lambda>row d. snd (WriteRow env d
                      (row\<lparr>SlotIndex :=
                             word_of_int
                               (CalcSlot env (Timestamp row) (familyTime f) (interval f))\<rparr>)))
                   (filter Writable rows) db) \<and>
      WriteMetrics (statistics (snd (WriteRows env f rows))) +
        WriteMetricFailures (statistics (snd (WriteRows env f rows))) =
        WriteMetrics (statistics f) + WriteMetricFailures (statistics f) + int (length rows) \<and>
      WriteMetricFailures (statistics f) + int (length (filter (\<lambda>r. \<not> Writable r) rows))
        \<le> WriteMetricFailures (statistics (snd (WriteRows env f rows)))"
    if ne: "rows \<noteq> []" and g: "fst (GetOrCreateMemoryDatabase env f (familyTime f)) = Inr db"
  proof -
    obtain f1 where g1: "GetOrCreateMemoryDatabase env f (familyTime f) = (Inr db, f1)"
      using g by (cases "GetOrCreateMemoryDatabase env f (familyTime f)") simp
    have same: "familyTime f1 = familyTime f" "interval f1 = interval f"
      "WriteMetrics (statistics f1) = WriteMetrics (statistics f)"
      "WriteMetricFailures (statistics f1) = WriteMetricFailures (statistics f)"
      using g1 by (auto simp add: GetOrCreateMemoryDatabase_def split: option.splits sum.splits)
    obtain db' st' tot' where l:
      "writeRowsLoop env (familyTime f) (interval f) rows (db, statistics f1, 0) = (db', st', tot')"
      by (cases "writeRowsLoop env (familyTime f) (interval f) rows (db, statistics f1, 0)")
    have res: "WriteRows env f rows =
        (None, f1\<lparr>mutableMemDB := Some db',
                  statistics := st'\<lparr>MemDBTotalSize := MemDBTotalSize st' + tot',
                                     WriteBatches := WriteBatches st' + 1\<rparr>\<rparr>)"
      using ne g1 l by (simp add: WriteRows_def same)
    have "db' = fst (writeRowsLoop env (familyTime f) (interval f) rows (db, statistics f1, 0))"
      using l by simp
    then have dbeq: "db' = fold (\<lambda>row d. snd (WriteRow env d
                      (row\<lparr>SlotIndex :=
                             word_of_int
                               (CalcSlot env (Timestamp row) (familyTime f) (interval f))\<rparr>)))
                   (filter Writable rows) db"
      by (simp only: writeRowsLoop_db)
    from writeRowsLoop_counts [OF l] same dbeq show ?thesis
      by (simp add: res)
  qed
  have skip: "writeRowsLoop env ft iv (row # rest) (d, st, tot) =
        writeRowsLoop env ft iv rest
          (d, st\<lparr>WriteMetricFailures := WriteMetricFailures st + 1\<rparr>, tot)"
    if "\<not> Writable row"
    using that by simp
  have fail: "writeRowsLoop env ft iv (row # rest) (d, st, tot) =
        writeRowsLoop env ft iv rest
          (d', st\<lparr>WriteMetricFailures := WriteMetricFailures st + 1\<rparr>, tot)"
    if "Writable row"
      "WriteRow env d (row\<lparr>SlotIndex := word_of_int (CalcSlot env (Timestamp row) ft iv)\<rparr>) =
        (Inl e, d')"
    using that by simp
  from empty create batch skip fail show ?thesis
    by blast
qed

theorem WriteRows_spec_witness:
  "WriteRows noCreateEnv fam0 [rowAt 1000, rowAt 5000] =
     (Some (Err ''MemDBCreate''),
      fam0\<lparr>statistics := (statistics fam0)\<lparr>WriteMetricFailures := 2\<rparr>\<rparr>) \<and>
   fst (WriteRows fullEnv fam0 [rowAt 1000, badRow, rowAt 5000, rowAt 9000]) = None \<and>
   mutableMemDB (snd (WriteRows fullEnv fam0 [rowAt 1000, badRow, rowAt 5000, rowAt 9000])) =
     Some [rowAt 1000] \<and>
   WriteMetrics
     (statistics (snd (WriteRows fullEnv fam0 [rowAt 1000, badRow, rowAt 5000, rowAt 9000]))) = 1 \<and>
   WriteMetricFailures
     (statistics (snd (WriteRows fullEnv fam0 [rowAt 1000, badRow, rowAt 5000, rowAt 9000]))) = 3"
proof -
  have h1: "[rowAt 1000, rowAt 5000] \<noteq> [] \<and> mutableMemDB fam0 = None \<and>
      newMemoryDBFunc noCreateEnv (familyTime fam0) = Inl (Err ''MemDBCreate'')"
    by (simp add: fam0_def newDataFamily_def noCreateEnv_def memEnv_def)
  have h2: "[rowAt 1000, badRow, rowAt 5000, rowAt 9000] \<noteq> [] \<and>
      fst (GetOrCreateMemoryDatabase fullEnv fam0 (familyTime fam0)) = Inr []"
    by (simp add: fam0_def newDataFamily_def fullEnv_def memEnv_def GetOrCreateMemoryDatabase_def)
  have h3: "\<not> Writable badRow"
    by (simp add: badRow_def)
  have h4: "Writable (rowAt 5000) \<and>
      WriteRow fullEnv [rowAt 1000]
        ((rowAt 5000)\<lparr>SlotIndex :=
            word_of_int (CalcSlot fullEnv (Timestamp (rowAt 5000)) 0 10000)\<rparr>) =
      (Inl (Err ''full''), [rowAt 1000])"
    by (simp add: rowAt_def fullEnv_def memEnv_def)
  from h1 h2 h3 h4
    WriteRows_spec [where env = noCreateEnv and f = fam0 and rows = "[rowAt 1000, rowAt 5000]"
      and err = "Err ''MemDBCreate''" and row = badRow]
    WriteRows_spec [where env = fullEnv and f = fam0
      and rows = "[rowAt 1000, badRow, rowAt 5000, rowAt 9000]"
      and db = "[]" and row = "rowAt 5000" and d = "[rowAt 1000]" and ft = 0 and iv = 10000
      and e = "Err ''full''" and d' = "[rowAt 1000]"]
  show ?thesis
    by (simp add: WriteRows_def GetOrCreateMemoryDatabase_def fam0_def newDataFamily_def zeroStatistics_def
        memEnv_def noCreateEnv_def fullEnv_def rowAt_def badRow_def)
qed

section \<open>Flush\<close>

lemma flushMemoryDatabase_keeps:
  "flushMemoryDatabase env f sq d = (r, f1, d1) \<Longrightarrow>
   mutableMemDB f1 = mutableMemDB f \<and> immutableMemDB f1 = immutableMemDB f \<and>
   seq f1 = seq f \<and> persistSeq f1 = persistSeq f \<and> immutableSeq f1 = immutableSeq f \<and>
   isFlushing f1 = isFlushing f \<and> flushCondition f1 = flushCondition f \<and>
   callbacks f1 = callbacks f \<and> flusherSeqs f1 = flusherSeqs f @ sq"
  by (auto simp add: flushMemoryDatabase_def Let_def split: option.splits prod.splits)

text \<open>While the immutable memory database is there, \<open>Flush\<close> returns nil at line 246.\<close>

lemma Flush_skips_immutable:
  "immutableMemDB f \<noteq> None \<Longrightarrow> \<not> isFlushing f \<Longrightarrow> Flush env f = (None, f)"
  by (simp add: Flush_def flushEnter_def flushSwap_def flushDone_def)

text \<open>\<open>Close\<close> flushes the immutable memory database with the sequences kept beside it.\<close>

lemma Close_flushes_immutable:
  assumes "flushCondition f = 0" and "immutableMemDB f = Some d" and "immutableSeq f = Some sq"
    and "mutableMemDB f = None"
  shows "Close env f =
     Some (case flushMemoryDatabase env f sq d of
             (Some e, f1, d1) \<Rightarrow> (Some e, f1\<lparr>immutableMemDB := Some d1\<rparr>)
           | (None, f1, d1) \<Rightarrow>
               (None,
                f1\<lparr>immutableMemDB := Some d1, registered := False,
                   statistics := (statistics f1)
                     \<lparr>ActiveFamilies := ActiveFamilies (statistics f1) - 1\<rparr>\<rparr>))"
proof -
  obtain r f1 d1 where w: "flushMemoryDatabase env f sq d = (r, f1, d1)"
    by (cases "flushMemoryDatabase env f sq d")
  from flushMemoryDatabase_keeps [OF w] assms(4) have "mutableMemDB f1 = None"
    by simp
  with assms w show ?thesis
    by (cases r) (simp_all add: Close_def Let_def)
qed

text \<open>The family after a flush whose write failed.\<close>

lemma Flush_write_failure_state:
  assumes "\<not> isFlushing f" and "immutableMemDB f = None" and "mutableMemDB f = Some db"
    and "Size env db \<noteq> 0"
    and "newMetricDataFlusher env = Some err \<or>
         (newMetricDataFlusher env = None \<and>
          fst (FlushFamilyTo env (MarkReadOnly env db)) = Some err)"
  shows "fst (Flush env f) = Some err \<and>
         immutableMemDB (snd (Flush env f)) =
           Some (if newMetricDataFlusher env = None
                 then snd (FlushFamilyTo env (MarkReadOnly env db))
                 else MarkReadOnly env db) \<and>
         immutableSeq (snd (Flush env f)) = Some (seq f) \<and>
         mutableMemDB (snd (Flush env f)) = None \<and>
         \<not> isFlushing (snd (Flush env f)) \<and>
         flushCondition (snd (Flush env f)) = flushCondition f \<and>
         seq (snd (Flush env f)) = seq f \<and>
         persistSeq (snd (Flush env f)) = persistSeq f \<and>
         invoked (snd (Flush env f)) = invoked f"
proof (cases "FlushFamilyTo env (MarkReadOnly env db)")
  case (Pair r db1)
  show ?thesis
  proof (cases "newMetricDataFlusher env")
    case None
    with assms Pair show ?thesis
      by (simp add: Flush_def flushEnter_def flushSwap_def flushWrite_def flushDone_def
          flushMemoryDatabase_def Let_def)
  next
    case (Some e)
    with assms Pair show ?thesis
      by (simp add: Flush_def flushEnter_def flushSwap_def flushWrite_def flushDone_def
          flushMemoryDatabase_def Let_def)
  qed
qed

text \<open>
  Claim C4, as stated: after a flush whose disk write failed, the immutable memory database
  is kept for a retry by a later \<open>Flush\<close> or by \<open>Close\<close>. Evaluated on \<open>scenario1\<close> with a
  failing \<open>FlushFamilyTo\<close>: the flush returns the error and keeps the three rows as the immutable
  memory database; a later \<open>Flush\<close>, with collaborators that do not fail, returns nil and
  leaves the family exactly as it was, the rows still unwritten; \<open>NeedFlush\<close> is false.
\<close>

theorem failed_Flush_not_retried_by_Flush:
  "fst (Flush failEnv scenario1) = Some (Err ''FlushWrite'') \<and>
   immutableMemDB (snd (Flush failEnv scenario1)) = Some rows3 \<and>
   flusherSeqs (snd (Flush failEnv scenario1)) = [(1, 10)] \<and>
   Flush memEnv (snd (Flush failEnv scenario1)) = (None, snd (Flush failEnv scenario1)) \<and>
   \<not> NeedFlush memEnv (snd (Flush failEnv scenario1))"
  by (simp add: NeedFlush_def IsFlushing_def scenario1_def CommitSequence_def failEnv_def
      Flush_def flushEnter_def flushSwap_def flushWrite_def
      flushMemoryDatabase_def flushCommit_def flushDone_def ackSequences_def ackCallbacks_def
      invokeAll_def Let_def
      WriteRows_def GetOrCreateMemoryDatabase_def
      fam0_def newDataFamily_def memEnv_def rowAt_def rows3_def zeroStatistics_def)

text \<open>
  Claim C4, amended. When \<open>Flush\<close> gets as far as the disk write (no flush is running, there
  is no immutable memory database, the mutable one exists and \<open>Size()\<close> is not zero) and the
  write fails, in \<open>newMetricDataFlusher\<close> or in \<open>FlushFamilyTo\<close>, then \<open>Flush\<close> returns that
  error; the promoted memory database stays as the immutable one, with the snapshot of the
  sequences beside it; \<open>isFlushing\<close> is false; \<open>seq\<close> and \<open>persistSeq\<close> are what they were, and
  no callback has been called. A later \<open>Flush\<close> does not retry: it returns nil and changes
  nothing. A later \<open>Close\<close> (with no flush in progress) does: it hands the kept memory database
  and the kept sequences to \<open>flushMemoryDatabase\<close>.
\<close>

theorem Flush_write_failure:
  assumes "\<not> isFlushing f" and "immutableMemDB f = None" and "mutableMemDB f = Some db"
    and "Size env db \<noteq> 0"
    and "newMetricDataFlusher env = Some err \<or>
         (newMetricDataFlusher env = None \<and>
          fst (FlushFamilyTo env (MarkReadOnly env db)) = Some err)"
    and "kept = (if newMetricDataFlusher env = None
                 then snd (FlushFamilyTo env (MarkReadOnly env db))
                 else MarkReadOnly env db)"
  shows "fst (Flush env f) = Some err \<and>
         immutableMemDB (snd (Flush env f)) = Some kept \<and>
         immutableSeq (snd (Flush env f)) = Some (seq f) \<and>
         \<not> isFlushing (snd (Flush env f)) \<and>
         seq (snd (Flush env f)) = seq f \<and>
         persistSeq (snd (Flush env f)) = persistSeq f \<and>
         invoked (snd (Flush env f)) = invoked f \<and>
         Flush env' (snd (Flush env f)) = (None, snd (Flush env f)) \<and>
         (flushCondition f = 0 \<longrightarrow>
            Close env' (snd (Flush env f)) =
              Some (case flushMemoryDatabase env' (snd (Flush env f)) (seq f) kept of
                      (Some e, f1, d1) \<Rightarrow> (Some e, f1\<lparr>immutableMemDB := Some d1\<rparr>)
                    | (None, f1, d1) \<Rightarrow>
                        (None,
                         f1\<lparr>immutableMemDB := Some d1, registered := False,
                            statistics := (statistics f1)
                              \<lparr>ActiveFamilies := ActiveFamilies (statistics f1) - 1\<rparr>\<rparr>)))"
proof -
  note st = Flush_write_failure_state [OF assms(1-5)]
  have imm: "immutableMemDB (snd (Flush env f)) = Some kept"
    using st assms(6) by simp
  have later: "Flush env' (snd (Flush env f)) = (None, snd (Flush env f))"
    using Flush_skips_immutable [of "snd (Flush env f)" env'] imm st by simp
  have close: "Close env' (snd (Flush env f)) =
              Some (case flushMemoryDatabase env' (snd (Flush env f)) (seq f) kept of
                      (Some e, f1, d1) \<Rightarrow> (Some e, f1\<lparr>immutableMemDB := Some d1\<rparr>)
                    | (None, f1, d1) \<Rightarrow>
                        (None,
                         f1\<lparr>immutableMemDB := Some d1, registered := False,
                            statistics := (statistics f1)
                              \<lparr>ActiveFamilies := ActiveFamilies (statistics f1) - 1\<rparr>\<rparr>))"
    if "flushCondition f = 0"
    using Close_flushes_immutable [of "snd (Flush env f)" kept "seq f" env'] imm st that
    by simp
  from st imm later close show ?thesis
    by simp
qed

theorem Flush_write_failure_witness:
  "fst (Flush failEnv scenario1) = Some (Err ''FlushWrite'') \<and>
   immutableMemDB (snd (Flush failEnv scenario1)) = Some rows3 \<and>
   \<not> isFlushing (snd (Flush failEnv scenario1)) \<and>
   seq (snd (Flush failEnv scenario1)) = [(1, 10)] \<and>
   persistSeq (snd (Flush failEnv scenario1)) = [] \<and>
   map_option (\<lambda>r. (fst r, flusherSeqs (snd r), registered (snd r)))
     (Close memEnv (snd (Flush failEnv scenario1))) =
     Some (None, [(1, 10), (1, 10)], False)"
proof -
  have h: "\<not> isFlushing scenario1" "immutableMemDB scenario1 = None"
    "mutableMemDB scenario1 = Some rows3" "Size failEnv rows3 \<noteq> 0"
    "newMetricDataFlusher failEnv = Some (Err ''FlushWrite'') \<or>
       (newMetricDataFlusher failEnv = None \<and>
        fst (FlushFamilyTo failEnv (MarkReadOnly failEnv rows3)) = Some (Err ''FlushWrite''))"
    "rows3 = (if newMetricDataFlusher failEnv = None
              then snd (FlushFamilyTo failEnv (MarkReadOnly failEnv rows3))
              else MarkReadOnly failEnv rows3)"
    by (simp_all add: scenario1_def CommitSequence_def
        WriteRows_def GetOrCreateMemoryDatabase_def
        fam0_def newDataFamily_def memEnv_def rowAt_def rows3_def zeroStatistics_def failEnv_def)
  have s: "seq scenario1 = [(1, 10)]" "persistSeq scenario1 = []" "flushCondition scenario1 = 0"
    by (simp_all add: scenario1_def CommitSequence_def
        WriteRows_def GetOrCreateMemoryDatabase_def
        fam0_def newDataFamily_def memEnv_def rowAt_def rows3_def zeroStatistics_def)
  note t = Flush_write_failure [OF h, where env' = memEnv]
  have fl: "flusherSeqs (snd (Flush failEnv scenario1)) = [(1, 10)]"
    "callbacks (snd (Flush failEnv scenario1)) = []"
    by (simp_all add: scenario1_def CommitSequence_def failEnv_def
      Flush_def flushEnter_def flushSwap_def flushWrite_def
      flushMemoryDatabase_def flushCommit_def flushDone_def ackSequences_def ackCallbacks_def
      invokeAll_def Let_def
      WriteRows_def GetOrCreateMemoryDatabase_def
      fam0_def newDataFamily_def memEnv_def rowAt_def rows3_def zeroStatistics_def)
  from t s fl show ?thesis
    by (simp add: flushMemoryDatabase_def Let_def memEnv_def ackSequences_def)
qed

text \<open>
  Claim C2. After \<open>Flush\<close> has promoted the memory database and written it without error,
  \<open>persistSeq[l]\<close> should be \<open>immutableSeq[l]\<close> for every leader of the snapshot. Evaluated on
  \<open>scenario1\<close> (sequence 10 committed for leader 1): the snapshot is \<open>[(1, 10)]\<close>, the flush
  returns nil, the immutable memory database is gone, the pair was given to the flusher, and
  \<open>persistSeq\<close> still has no entry for leader 1.
\<close>

theorem Flush_leaves_persistSeq:
  "map_of (seq scenario1) 1 = Some 10 \<and>
   flushSwap memEnv raceEntered = (raceSwapped, Some ([(1, 10)], rows3)) \<and>
   immutableSeq raceSwapped = Some [(1, 10)] \<and>
   fst (Flush memEnv scenario1) = None \<and>
   immutableMemDB (snd (Flush memEnv scenario1)) = None \<and>
   MemDBSize memEnv (snd (Flush memEnv scenario1)) = 0 \<and>
   flusherSeqs (snd (Flush memEnv scenario1)) = [(1, 10)] \<and>
   map_of (persistSeq (snd (Flush memEnv scenario1))) 1 = None"
  by (simp add: scenario1_def CommitSequence_def raceEntered_def raceSwapped_def MemDBSize_def
      Flush_def flushEnter_def flushSwap_def flushWrite_def
      flushMemoryDatabase_def flushCommit_def flushDone_def ackSequences_def ackCallbacks_def
      invokeAll_def Let_def
      WriteRows_def GetOrCreateMemoryDatabase_def
      fam0_def newDataFamily_def memEnv_def rowAt_def rows3_def zeroStatistics_def)

text \<open>\<open>Flush\<close> never writes \<open>persistSeq\<close>, whatever the family and the collaborators.\<close>

lemma Flush_keeps_persistSeq: "persistSeq (snd (Flush env f)) = persistSeq f"
  by (simp add: Flush_def flushEnter_def flushSwap_def flushWrite_def
      flushMemoryDatabase_def flushCommit_def flushDone_def ackSequences_def ackCallbacks_def
      invokeAll_def Let_def
      split: option.splits prod.splits)

text \<open>
  Claim C1. \<open>seq[l]\<close> should never decrease, and a flush should keep a sequence that a writer
  committed while the flush was writing. Evaluated on the schedule of \<open>raceFinished\<close>, in which
  every commit was accepted by \<open>ValidateSequence\<close> first: sequence 10 is committed; the flush
  enters and takes the snapshot \<open>[(1, 10)]\<close>; the writer validates and commits 11; the write
  succeeds; the second critical section of the flush puts \<open>seq[1]\<close> back to 10, and
  \<open>ValidateSequence\<close> accepts 11 a second time.
\<close>

theorem Flush_race_regresses_seq:
  "ValidateSequence (snd (WriteRows memEnv fam0 rows3)) 1 10 \<and>
   map_of (seq scenario1) 1 = Some 10 \<and>
   flushEnter scenario1 = Some raceEntered \<and>
   flushSwap memEnv raceEntered = (raceSwapped, Some ([(1, 10)], rows3)) \<and>
   ValidateSequence raceSwapped 1 11 \<and>
   map_of (seq raceCommitted) 1 = Some 11 \<and>
   fst (flushWrite memEnv raceCommitted [(1, 10)] rows3) = None \<and>
   map_of (seq raceFinished) 1 = Some 10 \<and>
   ValidateSequence raceFinished 1 11"
  by (simp add: scenario1_def CommitSequence_def raceEntered_def raceSwapped_def raceCommitted_def
      raceFinished_def ValidateSequence_def
      Flush_def flushEnter_def flushSwap_def flushWrite_def
      flushMemoryDatabase_def flushCommit_def flushDone_def ackSequences_def ackCallbacks_def
      invokeAll_def Let_def
      WriteRows_def GetOrCreateMemoryDatabase_def
      fam0_def newDataFamily_def memEnv_def rowAt_def rows3_def zeroStatistics_def)

text \<open>
  Claim C3. During one flush that promoted a memory database and wrote it without error, each
  registered callback should be called once. Evaluated on \<open>ackScenario\<close> (callback 7 of leader
  1, sequence 5 committed): the registration on the new family calls nothing, the flush returns
  nil, and callback 7 has been called twice with 5, once by \<open>flushMemoryDatabase\<close> and once
  by \<open>Flush\<close> itself.
\<close>

theorem Flush_acks_twice:
  "invoked (AckSequence fam0 1 7) = [] \<and>
   invoked ackScenario = [] \<and>
   fst (Flush memEnv ackScenario) = None \<and>
   invoked (snd (Flush memEnv ackScenario)) = [(7, 5), (7, 5)] \<and>
   count_list (invoked (snd (Flush memEnv ackScenario))) (7, 5) = 2"
  by (simp add: ackScenario_def CommitSequence_def AckSequence_def callbacksOf_def
      Flush_def flushEnter_def flushSwap_def flushWrite_def
      flushMemoryDatabase_def flushCommit_def flushDone_def ackSequences_def ackCallbacks_def
      invokeAll_def Let_def
      WriteRows_def GetOrCreateMemoryDatabase_def
      fam0_def newDataFamily_def memEnv_def rowAt_def rows3_def zeroStatistics_def)

text \<open>
  \<open>Close\<close> flushes the same family through \<open>flushMemoryDatabase\<close> alone, and there the
  callback is called once.
\<close>

lemma Close_acks_once:
  "map_option (\<lambda>r. (fst r, invoked (snd r))) (Close memEnv ackScenario) = Some (None, [(7, 5)])"
  by (simp add: Close_def ackScenario_def CommitSequence_def AckSequence_def callbacksOf_def
      Flush_def flushEnter_def flushSwap_def flushWrite_def
      flushMemoryDatabase_def flushCommit_def flushDone_def ackSequences_def ackCallbacks_def
      invokeAll_def Let_def
      WriteRows_def GetOrCreateMemoryDatabase_def
      fam0_def newDataFamily_def memEnv_def rowAt_def rows3_def zeroStatistics_def)

section \<open>The master\<close>

text \<open>
  Claim C9. \<open>FlushDatabase(cluster, database)\<close>: when the node is not master it returns nil
  and calls nothing; when it is master and the state manager knows no storage cluster of that
  name it returns \<open>ErrNoStorageCluster\<close> and calls nothing; when it is master and the state
  manager finds the storage cluster, it calls \<open>FlushDatabase(database)\<close> on that cluster, once,
  and returns what the cluster returns.
\<close>

theorem FlushDatabase_spec:
  "(\<not> IsMaster m \<longrightarrow> FlushDatabase m cluster db = Returns None []) \<and>
   (IsMaster m \<and> stateMgr m = Some mgr \<and> GetStorageCluster mgr cluster = None \<longrightarrow>
      FlushDatabase m cluster db = Returns (Some ErrNoStorageCluster) []) \<and>
   (IsMaster m \<and> stateMgr m = Some mgr \<and> GetStorageCluster mgr cluster = Some storage \<longrightarrow>
      FlushDatabase m cluster db = Returns (scFlushDatabase storage db) [(cluster, db)])"
  by (simp add: FlushDatabase_def)

theorem FlushDatabase_spec_witness:
  "FlushDatabase \<lparr>elect_IsMaster = False, stateMgr = None\<rparr> ''c1'' ''db1'' = Returns None [] \<and>
   FlushDatabase \<lparr>elect_IsMaster = True, stateMgr = Some oneClusterMgr\<rparr> ''c2'' ''db1'' =
     Returns (Some ErrNoStorageCluster) [] \<and>
   FlushDatabase \<lparr>elect_IsMaster = True, stateMgr = Some oneClusterMgr\<rparr> ''c1'' ''db1'' =
     Returns None [(''c1'', ''db1'')] \<and>
   FlushDatabase \<lparr>elect_IsMaster = True, stateMgr = Some oneClusterMgr\<rparr> ''c1'' ''db2'' =
     Returns (Some (Err ''no database'')) [(''c1'', ''db2'')]"
  using FlushDatabase_spec [where m = "\<lparr>elect_IsMaster = False, stateMgr = None\<rparr>"
      and cluster = "''c1''" and db = "''db1''"]
    FlushDatabase_spec [where m = "\<lparr>elect_IsMaster = True, stateMgr = Some oneClusterMgr\<rparr>"
      and mgr = oneClusterMgr and cluster = "''c2''" and db = "''db1''"]
    FlushDatabase_spec [where m = "\<lparr>elect_IsMaster = True, stateMgr = Some oneClusterMgr\<rparr>"
      and mgr = oneClusterMgr and cluster = "''c1''" and db = "''db1''" and storage = okCluster]
    FlushDatabase_spec [where m = "\<lparr>elect_IsMaster = True, stateMgr = Some oneClusterMgr\<rparr>"
      and mgr = oneClusterMgr and cluster = "''c1''" and db = "''db2''" and storage = okCluster]
  by (simp add: IsMaster_def oneClusterMgr_def okCluster_def)

end
